theory Spec2Isabelle
  imports Main
begin

section \<open>The fork/exec trace simulator of interrupts.cpp\<close>

text \<open>
  The development embeds \<^verbatim>\<open>simulate_trace\<close> and \<^verbatim>\<open>main\<close> of
  \<^verbatim>\<open>src/interrupts.cpp\<close>. The header \<^verbatim>\<open>interrupts.hpp\<close> is not part of the sources, so
  the helpers it declares (\<^verbatim>\<open>parse_trace\<close>, \<^verbatim>\<open>intr_boilerplate\<close>, \<^verbatim>\<open>get_size\<close>,
  \<^verbatim>\<open>allocate_memory\<close>, \<^verbatim>\<open>free_memory\<close>, \<^verbatim>\<open>print_PCB\<close>) and the types \<^verbatim>\<open>PCB\<close> and
  \<^verbatim>\<open>external_file\<close> are modelled from the specification; each such definition says so.

  Conventions of the embedding.
  \<^item> A C++ \<^verbatim>\<open>int\<close> is an \<open>int\<close>. Signed overflow is undefined behaviour in C++, so the
    model describes the runs in which every \<^verbatim>\<open>int\<close> stays in range. The one unsigned
    computation, \<^verbatim>\<open>program_size * 15\<close>, wraps modulo \<open>2 ^ 32\<close> and the wrap is written out.
  \<^item> The execution log is the list of its lines, a line
    \<^verbatim>\<open>"<time>, <duration>, <label>\n"\<close> being the triple \<open>(time, duration, label)\<close>;
    \<open>render_execution\<close> gives the text back.
  \<^item> The status log is the list of its snapshot blocks. The formatter \<^verbatim>\<open>print_PCB\<close> is
    not part of the sources, so a block keeps the arguments it is called with.
  \<^item> A helper that fails does so by a C++ exception. \<^verbatim>\<open>simulate_trace\<close> and \<^verbatim>\<open>main\<close>
    contain no handler, so the failure leaves every enclosing call: the model returns
    \<open>Inl\<close> of the error and no log.
  \<^item> The loop of \<^verbatim>\<open>simulate_trace\<close> may run forever (the index can be set back), so
    the model takes fuel: one unit per loop iteration. \<open>None\<close> means the fuel ran out.
\<close>

subsection \<open>Rendering integers\<close>

text \<open>\<^verbatim>\<open>std::to_string\<close> on a non-negative value: its decimal digits.\<close>

fun to_string_nat :: "nat \<Rightarrow> string" where
  "to_string_nat n =
     (if n < 10 then [''0123456789'' ! n]
      else to_string_nat (n div 10) @ [''0123456789'' ! (n mod 10)])"

declare to_string_nat.simps [simp del]

definition to_string :: "int \<Rightarrow> string" where
  "to_string i = (if i < 0 then CHR ''-'' # to_string_nat (nat (- i)) else to_string_nat (nat i))"

subsection \<open>Data\<close>

text \<open>
  Modelled from the spec: the \<^verbatim>\<open>PCB\<close> struct of the missing header. The field order is the
  one of the constructor calls \<^verbatim>\<open>PCB(next_pid++, current.PID, current.program_name,
  current.size, current.partition_number)\<close> and \<^verbatim>\<open>PCB current(0, -1, "init", 1, -1)\<close>;
  \<open>-1\<close> is the sentinel of \<open>PPID\<close> and of \<open>partition_number\<close>. The field \<^verbatim>\<open>size\<close> is
  \<open>size_pcb\<close> here.
\<close>

record PCB =
  PID :: int
  PPID :: int
  program_name :: string
  size_pcb :: nat
  partition_number :: int

type_synonym entry = "int \<times> int \<times> string"

text \<open>
  Modelled from the spec: the output of \<^verbatim>\<open>print_PCB\<close>, missing with the header, is kept as
  its two arguments (section 4.4: a rendered dump of the PCB and the wait queue). The two
  places that append to \<^verbatim>\<open>system_status\<close>:
  \<^verbatim>\<open>"time: T; current trace: FORK, D\n" + print_PCB(child, wait_queue)\<close> and
  \<^verbatim>\<open>"time: T; current trace: EXEC NAME, D\n" + print_PCB(current, wait_queue)\<close>.
\<close>

datatype status_entry =
  ForkStatus int int PCB "PCB list"
| ExecStatus int string int PCB "PCB list"

text \<open>
  The error kinds of the specification, and \<open>DelayReadOutOfBounds\<close> for the unchecked read
  \<^verbatim>\<open>delays[duration_intr]\<close> past the end of the vector (undefined behaviour in C++).
\<close>

datatype error =
  ParseError
| OutOfRangeVector
| UnknownProgram
| DelayReadOutOfBounds

text \<open>
  What a run reads and never writes: the arguments \<^verbatim>\<open>vectors\<close>, \<^verbatim>\<open>delays\<close> and
  \<^verbatim>\<open>external_files\<close> (here \<open>external_file_list\<close>) of \<^verbatim>\<open>simulate_trace\<close>, and its
  environment: \<open>parse\<close> is \<^verbatim>\<open>parse_trace\<close> of the missing header, taken as a parameter
  so that what is proved of the interpreter holds for every parser; \<open>trace_files\<close> maps a file
  name to the lines \<^verbatim>\<open>std::getline\<close> reads from it (a name that is absent cannot be
  opened); \<open>rand_values k\<close> is what the \<open>k\<close>-th call of \<^verbatim>\<open>rand()\<close> returns.
\<close>

record config =
  vectors :: "string list"
  delays :: "int list"
  external_file_list :: "(string \<times> nat) list"
  parse :: "string \<Rightarrow> error + (string \<times> int \<times> string)"
  trace_files :: "(string \<times> string list) list"
  rand_values :: "nat \<Rightarrow> nat"

text \<open>
  The state shared by all calls: the global \<^verbatim>\<open>next_pid\<close>, the memory, the number of
  \<^verbatim>\<open>rand()\<close> calls made, and what was written to \<^verbatim>\<open>std::cerr\<close>.

  Modelled from the spec: the partition table of the missing header (section 3,
  MemoryPartitionPool), the field \<open>memory\<close>: an ordered sequence of partitions, each with a
  fixed capacity and an occupancy flag; a partition's id is its index in the sequence.
\<close>

record globals =
  next_pid :: int
  memory :: "(nat \<times> bool) list"
  rand_calls :: nat
  cerr :: "string list"

text \<open>The local variables of one call of \<^verbatim>\<open>simulate_trace\<close>.\<close>

record frame =
  execution :: "entry list"
  system_status :: "status_entry list"
  current_time :: int
  current :: PCB
  wait_queue :: "PCB list"

type_synonym outcome = "(error + ((entry list \<times> status_entry list \<times> int) \<times> globals)) option"

definition render_entry :: "entry \<Rightarrow> string" where
  "render_entry e =
     (case e of (t, d, l) \<Rightarrow> to_string t @ '', '' @ to_string d @ '', '' @ l @ [CHR 0x0A])"

definition render_execution :: "entry list \<Rightarrow> string" where
  "render_execution es = concat (map render_entry es)"

subsection \<open>The helpers of the missing header\<close>

text \<open>
  Modelled from the spec: the eight activity tags (section 3, TraceEvent) and the reading
  of a numeric operand, a string of decimal digits, for \<^verbatim>\<open>parse_trace\<close>.
\<close>

definition known_tags :: "string list" where
  "known_tags =
     [''CPU'', ''SYSCALL'', ''END_IO'', ''FORK'', ''EXEC'', ''IF_CHILD'', ''IF_PARENT'', ''ENDIF'']"

definition is_digit :: "char \<Rightarrow> bool" where
  "is_digit c = (c \<in> set ''0123456789'')"

definition digit_val :: "char \<Rightarrow> nat" where
  "digit_val c = length (takeWhile (\<lambda>d. d \<noteq> c) ''0123456789'')"

definition stoi :: "string \<Rightarrow> int" where
  "stoi s = int (foldl (\<lambda>acc c. 10 * acc + digit_val c) 0 s)"

text \<open>
  Modelled from the spec: \<^verbatim>\<open>parse_trace\<close> (section 4.1), missing with the header. The line
  is split at its first comma into the activity tag and at most one operand. A numeric
  operand is the numeric operand; an absent one gives 0; a non-numeric one is the program
  name of an \<^verbatim>\<open>EXEC\<close> and a malformed numeric field for every other tag. An unrecognised
  tag is a \<open>ParseError\<close>. The interpreter takes its parser from the configuration; this
  one is the parser of the concrete machines below.
\<close>

definition parse_trace :: "string \<Rightarrow> error + (string \<times> int \<times> string)" where
  "parse_trace line =
     (let tag = takeWhile (\<lambda>c. c \<noteq> CHR '','') line;
          operand = drop 1 (dropWhile (\<lambda>c. c \<noteq> CHR '','') line)
      in if tag \<notin> set known_tags then Inl ParseError
         else if operand = [] then Inr (tag, 0, [])
         else if list_all is_digit operand then Inr (tag, stoi operand, [])
         else if tag = ''EXEC'' then Inr (tag, 0, operand)
         else Inl ParseError)"

text \<open>
  Modelled from the spec: \<^verbatim>\<open>intr_boilerplate\<close> (section 4.2), missing with the header.
  Three entries: switch to kernel mode (1), context saved (the given cost), find the vector
  (1); the clock returned is \<open>clock + 1 + cost + 1\<close>. A device index outside the vector
  table is an \<open>OutOfRangeVector\<close>.
\<close>

definition intr_boilerplate :: "int \<Rightarrow> int \<Rightarrow> int \<Rightarrow> string list \<Rightarrow> error + (entry list \<times> int)" where
  "intr_boilerplate clock intr_num context_save_time vecs =
     (if intr_num < 0 \<or> int (length vecs) \<le> intr_num then Inl OutOfRangeVector
      else Inr ([(clock, 1, ''switch to kernel mode''),
                 (clock + 1, context_save_time, ''context saved''),
                 (clock + 1 + context_save_time, 1,
                    ''find vector '' @ to_string intr_num @ '' in memory position ''
                      @ vecs ! nat intr_num)],
                clock + 1 + context_save_time + 1))"

text \<open>
  Modelled from the spec: \<^verbatim>\<open>get_size\<close> (section 4.4, EXEC), missing with the header: the
  size the registry gives the program, \<open>UnknownProgram\<close> when it has none.
\<close>

definition get_size :: "string \<Rightarrow> (string \<times> nat) list \<Rightarrow> error + nat" where
  "get_size name files =
     (case map_of files name of None \<Rightarrow> Inl UnknownProgram | Some s \<Rightarrow> Inr s)"

text \<open>
  Modelled from the spec: the choice of \<^verbatim>\<open>allocate_memory\<close> (section 4.3), missing with
  the header. Best-fit: among the free partitions whose capacity is at least the size
  (\<open>candidates\<close>), one of smallest capacity, the first of them (\<open>best_fit\<close>).
\<close>

fun best_fit :: "(nat \<times> bool) list \<Rightarrow> nat list \<Rightarrow> nat option" where
  "best_fit pool [] = None"
| "best_fit pool (i # rest) =
     (case best_fit pool rest of
        None \<Rightarrow> Some i
      | Some j \<Rightarrow> if fst (pool ! i) \<le> fst (pool ! j) then Some i else Some j)"

definition candidates :: "(nat \<times> bool) list \<Rightarrow> nat \<Rightarrow> nat list" where
  "candidates pool sz = filter (\<lambda>i. \<not> snd (pool ! i) \<and> sz \<le> fst (pool ! i)) [0..<length pool]"

text \<open>
  Modelled from the spec: \<^verbatim>\<open>allocate_memory\<close> (section 4.3), missing with the header. The
  chosen partition is marked occupied and the PCB gets its id; the result is \<open>False\<close>, with
  nothing changed, when no partition fits.
\<close>

definition allocate_memory :: "PCB \<Rightarrow> (nat \<times> bool) list \<Rightarrow> bool \<times> PCB \<times> (nat \<times> bool) list" where
  "allocate_memory pcb pool =
     (case best_fit pool (candidates pool (size_pcb pcb)) of
        None \<Rightarrow> (False, pcb, pool)
      | Some i \<Rightarrow> (True, pcb\<lparr>partition_number := int i\<rparr>, pool[i := (fst (pool ! i), True)]))"

text \<open>
  Modelled from the spec: \<^verbatim>\<open>free_memory\<close> (section 4.3), missing with the header. The
  partition of a PCB that has one is marked free and the field is reset to the sentinel;
  a PCB without a partition is left as it is.
\<close>

definition free_memory :: "PCB \<Rightarrow> (nat \<times> bool) list \<Rightarrow> PCB \<times> (nat \<times> bool) list" where
  "free_memory pcb pool =
     (if partition_number pcb = - 1 then (pcb, pool)
      else (pcb\<lparr>partition_number := - 1\<rparr>,
            if 0 \<le> partition_number pcb \<and> nat (partition_number pcb) < length pool
            then pool[nat (partition_number pcb) :=
                        (fst (pool ! nat (partition_number pcb)), False)]
            else pool))"

subsection \<open>The straight-line parts of the loop body\<close>

text \<open>
  \<open>emit d l\<close> is \<^verbatim>\<open>execution += std::to_string(current_time) + ", " + std::to_string(d)
  + ", l\n"\<close> and \<open>advance d\<close> is \<^verbatim>\<open>current_time += d\<close>.
\<close>

definition emit :: "int \<Rightarrow> string \<Rightarrow> frame \<Rightarrow> frame" where
  "emit d l fr = fr\<lparr>execution := execution fr @ [(current_time fr, d, l)]\<rparr>"

definition advance :: "int \<Rightarrow> frame \<Rightarrow> frame" where
  "advance d fr = fr\<lparr>current_time := current_time fr + d\<rparr>"

text \<open>
  \<^verbatim>\<open>auto [intr, time] = intr_boilerplate(current_time, dev, 10, vectors);
  execution += intr; current_time = time;\<close>
\<close>

definition run_intr :: "config \<Rightarrow> int \<Rightarrow> frame \<Rightarrow> error + frame" where
  "run_intr cfg dev fr =
     (case intr_boilerplate (current_time fr) dev 10 (vectors cfg) of
        Inl e \<Rightarrow> Inl e
      | Inr (intr, t) \<Rightarrow> Inr (fr\<lparr>execution := execution fr @ intr, current_time := t\<rparr>))"

text \<open>
  \<^verbatim>\<open>delays[duration_intr]\<close>: \<^verbatim>\<open>operator[]\<close> of a \<^verbatim>\<open>std::vector\<close> checks nothing, so an
  index outside the vector is a read past its end.
\<close>

definition read_delay :: "config \<Rightarrow> int \<Rightarrow> error + int" where
  "read_delay cfg d =
     (if 0 \<le> d \<and> nat d < length (delays cfg) then Inr (delays cfg ! nat d)
      else Inl DelayReadOutOfBounds)"

definition cpu_step :: "int \<Rightarrow> frame \<Rightarrow> frame" where
  "cpu_step duration_intr fr = advance duration_intr (emit duration_intr ''CPU Burst'' fr)"

definition syscall_step :: "config \<Rightarrow> int \<Rightarrow> frame \<Rightarrow> error + frame" where
  "syscall_step cfg duration_intr fr =
     (case run_intr cfg duration_intr fr of
        Inl e \<Rightarrow> Inl e
      | Inr fr1 \<Rightarrow>
          (case read_delay cfg duration_intr of
             Inl e \<Rightarrow> Inl e
           | Inr dl \<Rightarrow>
               Inr (advance 1 (emit 1 ''IRET'' (advance dl (emit dl ''SYSCALL ISR'' fr1))))))"

definition end_io_step :: "config \<Rightarrow> int \<Rightarrow> frame \<Rightarrow> error + frame" where
  "end_io_step cfg duration_intr fr =
     (case run_intr cfg duration_intr fr of
        Inl e \<Rightarrow> Inl e
      | Inr fr1 \<Rightarrow>
          (case read_delay cfg duration_intr of
             Inl e \<Rightarrow> Inl e
           | Inr dl \<Rightarrow>
               Inr (advance 1 (emit 1 ''IRET'' (advance dl (emit dl ''ENDIO ISR'' fr1))))))"

text \<open>
  FORK up to the snapshot (lines 83 to 105): the prologue with vector 2, the three
  entries, the child PCB with the pid \<^verbatim>\<open>next_pid++\<close> and the parent's program, size and
  partition, the parent pushed on the wait queue, and the status block.
\<close>

definition fork_step :: "config \<Rightarrow> int \<Rightarrow> frame \<Rightarrow> globals \<Rightarrow> error + (frame \<times> PCB \<times> globals)" where
  "fork_step cfg duration_intr fr g =
     (case run_intr cfg 2 fr of
        Inl e \<Rightarrow> Inl e
      | Inr fr1 \<Rightarrow>
          (let fr2 = advance duration_intr (emit duration_intr ''cloning the PCB'' fr1);
               fr3 = advance 1 (emit 1 ''IRET'' (emit 0 ''scheduler called'' fr2));
               child = \<lparr>PID = next_pid g, PPID = PID (current fr3),
                        program_name = program_name (current fr3),
                        size_pcb = size_pcb (current fr3),
                        partition_number = partition_number (current fr3)\<rparr>;
               g1 = g\<lparr>next_pid := next_pid g + 1\<rparr>;
               fr4 = fr3\<lparr>wait_queue := wait_queue fr3 @ [current fr3]\<rparr>;
               fr5 = fr4\<lparr>system_status := system_status fr4 @
                         [ForkStatus (current_time fr4) duration_intr child (wait_queue fr4)]\<rparr>
           in Inr (fr5, child, g1)))"

text \<open>
  The scan that extracts the child's trace (lines 108 to 133), as a recursion over the
  lines from index \<open>j\<close> on; \<open>skip\<close>, \<open>exec_flag\<close>, \<open>parent_index\<close> and \<open>child_trace\<close>
  are the loop's variables. The result is \<open>(child_trace, parent_index)\<close>.
\<close>

fun child_scan ::
  "(string \<Rightarrow> error + (string \<times> int \<times> string)) \<Rightarrow> string list \<Rightarrow> nat \<Rightarrow> bool \<Rightarrow> bool \<Rightarrow> nat
     \<Rightarrow> string list \<Rightarrow> error + (string list \<times> nat)" where
  "child_scan prs [] j skip exec_flag parent_index child_trace = Inr (child_trace, parent_index)"
| "child_scan prs (l # ls) j skip exec_flag parent_index child_trace =
     (case prs l of
        Inl e \<Rightarrow> Inl e
      | Inr (activity, duration, pn) \<Rightarrow>
          if skip \<and> activity = ''IF_CHILD'' then
            child_scan prs ls (Suc j) False exec_flag parent_index child_trace
          else if activity = ''IF_PARENT'' then
            (if exec_flag then Inr (child_trace, j)
             else child_scan prs ls (Suc j) True exec_flag j child_trace)
          else if skip \<and> activity = ''ENDIF'' then
            child_scan prs ls (Suc j) False exec_flag parent_index child_trace
          else if \<not> skip \<and> activity = ''EXEC'' then
            child_scan prs ls (Suc j) True True parent_index (child_trace @ [l])
          else
            child_scan prs ls (Suc j) skip exec_flag parent_index
              (if \<not> skip then child_trace @ [l] else child_trace))"

text \<open>\<^verbatim>\<open>int load_time = program_size * 15\<close>: an unsigned product, converted to \<^verbatim>\<open>int\<close>.\<close>

definition to_int32 :: "nat \<Rightarrow> int" where
  "to_int32 x =
     (if int x mod 2 ^ 32 < 2 ^ 31 then int x mod 2 ^ 32 else int x mod 2 ^ 32 - 2 ^ 32)"

text \<open>\<^verbatim>\<open>(rand() % 10) + 1\<close>, with the call counted.\<close>

definition rand_delay :: "config \<Rightarrow> globals \<Rightarrow> int \<times> globals" where
  "rand_delay cfg g =
     (int (rand_values cfg (rand_calls g) mod 10) + 1, g\<lparr>rand_calls := Suc (rand_calls g)\<rparr>)"

text \<open>
  EXEC up to the snapshot (lines 158 to 203). A failed allocation writes to
  \<^verbatim>\<open>std::cerr\<close> and nothing else: the \<^verbatim>\<open>if\<close> of line 181 has the one statement.
\<close>

definition exec_step :: "config \<Rightarrow> int \<Rightarrow> string \<Rightarrow> frame \<Rightarrow> globals \<Rightarrow> error + (frame \<times> globals)" where
  "exec_step cfg duration_intr pn fr g =
     (case run_intr cfg 3 fr of
        Inl e \<Rightarrow> Inl e
      | Inr fr1 \<Rightarrow>
          (case get_size pn (external_file_list cfg) of
             Inl e \<Rightarrow> Inl e
           | Inr program_size \<Rightarrow>
               (let fr2 = advance duration_intr
                            (emit duration_intr
                               (''Program is '' @ to_string (int program_size) @ '' Mb large'') fr1);
                    load_time = to_int32 (program_size * 15);
                    fr3 = advance load_time (emit load_time ''loading program into memory'' fr2);
                    (cur1, mem1) = free_memory (current fr3) (memory g);
                    cur2 = cur1\<lparr>program_name := pn, size_pcb := program_size\<rparr>;
                    (ok, cur3, mem2) = allocate_memory cur2 mem1;
                    g1 = g\<lparr>memory := mem2,
                           cerr := (if ok then cerr g
                                    else cerr g @ [''ERROR! Memory allocation failed for '' @ pn])\<rparr>;
                    (mark_time, g2) = rand_delay cfg g1;
                    fr4 = advance mark_time (emit mark_time ''marking partition as occupied'' fr3);
                    (update_time, g3) = rand_delay cfg g2;
                    fr5 = advance update_time (emit update_time ''updating PCB'' fr4);
                    fr6 = advance 1 (emit 1 ''IRET'' (emit 0 ''scheduler called'' fr5));
                    fr7 = fr6\<lparr>current := cur3\<rparr>;
                    fr8 = fr7\<lparr>system_status := system_status fr7 @
                              [ExecStatus (current_time fr7) pn duration_intr (current fr7)
                                 (wait_queue fr7)]\<rparr>
                in Inr (fr8, g3))))"

subsection \<open>The interpreter\<close>

text \<open>The locals of a fresh call: empty logs, the clock, PCB and wait queue passed in.\<close>

definition new_frame :: "int \<Rightarrow> PCB \<Rightarrow> PCB list \<Rightarrow> frame" where
  "new_frame t pcb wq =
     \<lparr>execution = [], system_status = [], current_time = t, current = pcb, wait_queue = wq\<rparr>"

text \<open>\<^verbatim>\<open>return {execution, system_status, current_time}\<close>, with the shared state.\<close>

definition finish :: "frame \<Rightarrow> globals \<Rightarrow> outcome" where
  "finish fr g = Some (Inr ((execution fr, system_status fr, current_time fr), g))"

text \<open>
  \<open>sim n cfg trace_file i fr g\<close> is the \<^verbatim>\<open>for\<close> loop of \<^verbatim>\<open>simulate_trace\<close> from index
  \<open>i\<close> on, with the locals \<open>fr\<close> and the shared state \<open>g\<close>. A \<^verbatim>\<open>break\<close> is \<open>finish\<close>. The
  child's PCB and the wait queue are passed by value, so what a callee does to them is
  not seen by the caller; memory, the pid counter and the \<^verbatim>\<open>rand()\<close> state are shared.
\<close>

fun sim :: "nat \<Rightarrow> config \<Rightarrow> string list \<Rightarrow> nat \<Rightarrow> frame \<Rightarrow> globals \<Rightarrow> outcome" where
  "sim 0 cfg trace_file i fr g = None"
| "sim (Suc n) cfg trace_file i fr g =
     (if length trace_file \<le> i then finish fr g
      else
        (case parse cfg (trace_file ! i) of
           Inl e \<Rightarrow> Some (Inl e)
         | Inr (activity, duration_intr, pn) \<Rightarrow>
             if activity = ''CPU'' then
               sim n cfg trace_file (Suc i) (cpu_step duration_intr fr) g
             else if activity = ''SYSCALL'' then
               (case syscall_step cfg duration_intr fr of
                  Inl e \<Rightarrow> Some (Inl e)
                | Inr fr1 \<Rightarrow> sim n cfg trace_file (Suc i) fr1 g)
             else if activity = ''END_IO'' then
               (case end_io_step cfg duration_intr fr of
                  Inl e \<Rightarrow> Some (Inl e)
                | Inr fr1 \<Rightarrow> sim n cfg trace_file (Suc i) fr1 g)
             else if activity = ''FORK'' then
               (case fork_step cfg duration_intr fr g of
                  Inl e \<Rightarrow> Some (Inl e)
                | Inr (fr1, child, g1) \<Rightarrow>
                    (case child_scan (parse cfg) (drop (Suc i) trace_file) (Suc i) True False 0 [] of
                       Inl e \<Rightarrow> Some (Inl e)
                     | Inr (child_trace, parent_index) \<Rightarrow>
                         (case sim n cfg child_trace 0 (new_frame (current_time fr1) child []) g1 of
                            None \<Rightarrow> None
                          | Some (Inl e) \<Rightarrow> Some (Inl e)
                          | Some (Inr ((child_exec, child_status, new_time), g2)) \<Rightarrow>
                              sim n cfg trace_file (Suc parent_index)
                                (fr1\<lparr>execution := execution fr1 @ child_exec,
                                     system_status := system_status fr1 @ child_status,
                                     current_time := new_time\<rparr>)
                                (g2\<lparr>memory := snd (free_memory child (memory g2))\<rparr>))))
             else if activity = ''EXEC'' then
               (case exec_step cfg duration_intr pn fr g of
                  Inl e \<Rightarrow> Some (Inl e)
                | Inr (fr1, g1) \<Rightarrow>
                    (case map_of (trace_files cfg) (pn @ ''.txt'') of
                       None \<Rightarrow>
                         finish fr1
                           (g1\<lparr>cerr := cerr g1 @ [''ERROR! Could not open '' @ pn @ ''.txt'']\<rparr>)
                     | Some exec_traces \<Rightarrow>
                         (case sim n cfg exec_traces 0
                                 (new_frame (current_time fr1) (current fr1) (wait_queue fr1)) g1 of
                            None \<Rightarrow> None
                          | Some (Inl e) \<Rightarrow> Some (Inl e)
                          | Some (Inr ((exec_exec, exec_status, final_time), g2)) \<Rightarrow>
                              finish
                                (fr1\<lparr>execution := execution fr1 @ exec_exec,
                                     system_status := system_status fr1 @ exec_status,
                                     current_time := final_time\<rparr>)
                                g2)))
             else sim n cfg trace_file (Suc i) fr g))"

declare sim.simps(2) [simp del]

definition simulate_trace ::
  "nat \<Rightarrow> config \<Rightarrow> string list \<Rightarrow> int \<Rightarrow> PCB \<Rightarrow> PCB list \<Rightarrow> globals \<Rightarrow> outcome" where
  "simulate_trace n cfg trace_file t pcb wq g = sim n cfg trace_file 0 (new_frame t pcb wq) g"

text \<open>
  \<^verbatim>\<open>main\<close>: the PCB of init, its allocation (the outer \<open>None\<close> is \<^verbatim>\<open>return 1\<close>), and the
  run from clock 0 with an empty wait queue. \<open>mem0\<close> is the partition table of the missing
  header; \<^verbatim>\<open>next_pid\<close> starts at 1.
\<close>

definition main :: "nat \<Rightarrow> config \<Rightarrow> string list \<Rightarrow> (nat \<times> bool) list \<Rightarrow> outcome option" where
  "main n cfg trace_file mem0 =
     (case allocate_memory
             \<lparr>PID = 0, PPID = - 1, program_name = ''init'', size_pcb = 1, partition_number = - 1\<rparr>
             mem0 of
        (ok, cur, mem) \<Rightarrow>
          if \<not> ok then None
          else Some (simulate_trace n cfg trace_file 0 cur []
                       \<lparr>next_pid = 1, memory = mem, rand_calls = 0, cerr = []\<rparr>))"

subsection \<open>Notions used in the statements\<close>

text \<open>
  An execution log is \<open>chained\<close> from \<open>t\<close> to \<open>t'\<close> when its first entry is stamped \<open>t\<close>,
  every next entry is stamped with its predecessor's time plus its predecessor's duration,
  and the last entry's time plus duration is \<open>t'\<close>.
\<close>

fun chained :: "int \<Rightarrow> entry list \<Rightarrow> int \<Rightarrow> bool" where
  "chained t [] t' = (t' = t)"
| "chained t (e # es) t' = (fst e = t \<and> chained (t + fst (snd e)) es t')"



text \<open>
  A FORK block \<open>shares\<close> when the wait queue it shows ends with the parent of the child it
  shows, and the child has the parent's partition number. EXEC blocks are not concerned.
\<close>

fun shares :: "status_entry \<Rightarrow> bool" where
  "shares (ForkStatus t d child wq) =
     (wq \<noteq> [] \<and> PPID child = PID (last wq)
      \<and> partition_number child = partition_number (last wq))"
| "shares (ExecStatus t name d pcb wq) = True"

text \<open>The activities that have a branch in the loop of \<^verbatim>\<open>simulate_trace\<close>.\<close>

definition handled :: "string list" where
  "handled = [''CPU'', ''SYSCALL'', ''END_IO'', ''FORK'', ''EXEC'']"

text \<open>
  A line that the scan of FORK, once out of skip mode, adds to the child's trace and
  passes: it parses, and is neither an \<^verbatim>\<open>IF_PARENT\<close> nor an \<^verbatim>\<open>EXEC\<close>.
\<close>

definition collected :: "(string \<Rightarrow> error + (string \<times> int \<times> string)) \<Rightarrow> string \<Rightarrow> bool" where
  "collected prs l =
     (case prs l of Inl e \<Rightarrow> False
      | Inr (activity, d, pn) \<Rightarrow> activity \<noteq> ''IF_PARENT'' \<and> activity \<noteq> ''EXEC'')"

text \<open>A line that parses and is not an \<^verbatim>\<open>IF_PARENT\<close>.\<close>

definition not_if_parent :: "(string \<Rightarrow> error + (string \<times> int \<times> string)) \<Rightarrow> string \<Rightarrow> bool" where
  "not_if_parent prs l =
     (case prs l of Inl e \<Rightarrow> False | Inr (activity, d, pn) \<Rightarrow> activity \<noteq> ''IF_PARENT'')"

text \<open>
  A line the loop passes without a call and without a failure: it parses, it is neither a
  \<^verbatim>\<open>FORK\<close> nor an \<^verbatim>\<open>EXEC\<close>, and when it is a \<^verbatim>\<open>SYSCALL\<close> or an \<^verbatim>\<open>END_IO\<close> its operand is
  an index of the vector table and of the delay table.
\<close>

definition passed :: "config \<Rightarrow> string \<Rightarrow> bool" where
  "passed cfg l =
     (case parse cfg l of Inl e \<Rightarrow> False
      | Inr (activity, d, pn) \<Rightarrow>
          activity \<noteq> ''FORK'' \<and> activity \<noteq> ''EXEC''
          \<and> (if activity = ''SYSCALL'' \<or> activity = ''END_IO''
               then 0 \<le> d \<and> nat d < length (vectors cfg) \<and> nat d < length (delays cfg)
               else True))"

subsection \<open>Concrete machines\<close>

text \<open>
  A configuration with the parser of the specification and a \<^verbatim>\<open>rand()\<close> that returns 0,
  the PCB of init as \<^verbatim>\<open>main\<close> builds it, and the shared state at the start of a run.
\<close>

definition machine ::
  "string list \<Rightarrow> int list \<Rightarrow> (string \<times> nat) list \<Rightarrow> (string \<times> string list) list \<Rightarrow> config" where
  "machine vecs dls registry files =
     \<lparr>vectors = vecs, delays = dls, external_file_list = registry, parse = parse_trace,
      trace_files = files, rand_values = (\<lambda>k. 0)\<rparr>"

definition init_pcb :: "int \<Rightarrow> PCB" where
  "init_pcb part =
     \<lparr>PID = 0, PPID = - 1, program_name = ''init'', size_pcb = 1, partition_number = part\<rparr>"

definition boot :: "(nat \<times> bool) list \<Rightarrow> globals" where
  "boot mem = \<lparr>next_pid = 1, memory = mem, rand_calls = 0, cerr = []\<rparr>"

subsection \<open>Further notions\<close>

text \<open>
  The locals of a call are \<open>timed\<close> from \<open>t0\<close> when the execution log built so far is
  chained from \<open>t0\<close> to the current clock.
\<close>

definition timed :: "int \<Rightarrow> frame \<Rightarrow> bool" where
  "timed t0 fr = chained t0 (execution fr) (current_time fr)"

text \<open>The clock a run returns, when it returns.\<close>

definition final_clock :: "outcome \<Rightarrow> int option" where
  "final_clock out = (case out of Some (Inr ((ex, st, t), g)) \<Rightarrow> Some t | _ \<Rightarrow> None)"

section \<open>Evaluation on concrete inputs\<close>

lemmas parse_eval = parse_trace_def known_tags_def is_digit_def stoi_def digit_val_def

lemmas run_eval = simulate_trace_def sim.simps(2) machine_def init_pcb_def boot_def new_frame_def
  finish_def cpu_step_def syscall_step_def end_io_step_def run_intr_def intr_boilerplate_def
  read_delay_def emit_def advance_def to_string_def to_string_nat.simps

text \<open>The text of a log: the first two lines of scenario A as \<^verbatim>\<open>simulate_trace\<close> writes them.\<close>

lemma render_execution_example:
  "render_execution [(0, 5, ''CPU Burst''), (5, 1, ''switch to kernel mode'')] =
     ''0, 5, CPU Burst'' @ [CHR 0x0A] @ ''5, 1, switch to kernel mode'' @ [CHR 0x0A]"
  by (simp add: render_execution_def render_entry_def to_string_def to_string_nat.simps)

section \<open>Facts about the loop\<close>

subsection \<open>Fuel\<close>

text \<open>
  The fuel only bounds the number of loop iterations: a result reached with some fuel is
  the result with any more.
\<close>

lemma sim_fuel_Suc:
  "sim n cfg tr i fr g = Some r \<Longrightarrow> sim (Suc n) cfg tr i fr g = Some r"
proof (induction n arbitrary: tr i fr g r)
  case 0
  then show ?case by simp
next
  case (Suc n)
  note ih = Suc.IH
  show ?case
  proof (cases "length tr \<le> i")
    case True
    with Suc.prems show ?thesis by (simp add: sim.simps(2))
  next
    case False
    show ?thesis
    proof (cases "parse cfg (tr ! i)")
      case (Inl e)
      with Suc.prems False show ?thesis by (simp add: sim.simps(2))
    next
      case (Inr ev)
      obtain a d pn where ev: "ev = (a, d, pn)" by (cases ev)
      note p = Inr [unfolded ev]
      consider (cpu) "a = ''CPU''" | (sys) "a = ''SYSCALL''" | (eio) "a = ''END_IO''"
        | (fork) "a = ''FORK''" | (exec) "a = ''EXEC''" | (other) "a \<notin> set handled"
        by (auto simp: handled_def)
      then show ?thesis
      proof cases
        case cpu
        with Suc.prems False p have "sim n cfg tr (Suc i) (cpu_step d fr) g = Some r"
          by (simp add: sim.simps(2))
        from ih [OF this] cpu False p show ?thesis by (subst sim.simps(2)) simp
      next
        case sys
        show ?thesis
        proof (cases "syscall_step cfg d fr")
          case (Inl e)
          with Suc.prems False p sys show ?thesis by (simp add: sim.simps(2))
        next
          case (Inr fr1)
          with Suc.prems False p sys have "sim n cfg tr (Suc i) fr1 g = Some r"
            by (simp add: sim.simps(2))
          from ih [OF this] sys False p Inr show ?thesis by (subst sim.simps(2)) simp
        qed
      next
        case eio
        show ?thesis
        proof (cases "end_io_step cfg d fr")
          case (Inl e)
          with Suc.prems False p eio show ?thesis by (simp add: sim.simps(2))
        next
          case (Inr fr1)
          with Suc.prems False p eio have "sim n cfg tr (Suc i) fr1 g = Some r"
            by (simp add: sim.simps(2))
          from ih [OF this] eio False p Inr show ?thesis by (subst sim.simps(2)) simp
        qed
      next
        case fork
        show ?thesis
        proof (cases "fork_step cfg d fr g")
          case (Inl e)
          with Suc.prems False p fork show ?thesis by (simp add: sim.simps(2))
        next
          case (Inr res)
          obtain fr1 child g1 where res: "res = (fr1, child, g1)" by (cases res)
          note f = Inr [unfolded res]
          show ?thesis
          proof (cases "child_scan (parse cfg) (drop (Suc i) tr) (Suc i) True False 0 []")
            case (Inl e)
            with Suc.prems False p fork f show ?thesis by (simp add: sim.simps(2))
          next
            case (Inr sc)
            obtain ct pidx where sc: "sc = (ct, pidx)" by (cases sc)
            note s = Inr [unfolded sc]
            show ?thesis
            proof (cases "sim n cfg ct 0 (new_frame (current_time fr1) child []) g1")
              case None
              with Suc.prems False p fork f s show ?thesis by (simp add: sim.simps(2))
            next
              case (Some cr)
              note c = ih [OF Some]
              show ?thesis
              proof (cases cr)
                case (Inl e)
                with Suc.prems False p fork f s Some have "r = Inl e"
                  by (simp add: sim.simps(2))
                with False p fork f s c Inl show ?thesis
                  by (subst sim.simps(2)) simp
              next
                case (Inr cres)
                obtain cex cst nt g2 where cres: "cres = ((cex, cst, nt), g2)"
                  by (cases cres) auto
                from Suc.prems False p fork f s Some Inr cres
                have "sim n cfg tr (Suc pidx)
                        (fr1\<lparr>execution := execution fr1 @ cex,
                             system_status := system_status fr1 @ cst, current_time := nt\<rparr>)
                        (g2\<lparr>memory := snd (free_memory child (memory g2))\<rparr>) = Some r"
                  by (simp add: sim.simps(2))
                from ih [OF this] c False p fork f s Inr cres show ?thesis
                  by (subst sim.simps(2)) simp
              qed
            qed
          qed
        qed
      next
        case exec
        show ?thesis
        proof (cases "exec_step cfg d pn fr g")
          case (Inl e)
          with Suc.prems False p exec show ?thesis by (simp add: sim.simps(2))
        next
          case (Inr res)
          obtain fr1 g1 where res: "res = (fr1, g1)" by (cases res)
          note f = Inr [unfolded res]
          show ?thesis
          proof (cases "map_of (trace_files cfg) (pn @ ''.txt'')")
            case None
            with Suc.prems False p exec f show ?thesis by (simp add: sim.simps(2))
          next
            case (Some lines)
            note opened = Some
            show ?thesis
            proof (cases "sim n cfg lines 0
                            (new_frame (current_time fr1) (current fr1) (wait_queue fr1)) g1")
              case None
              with Suc.prems False p exec f opened show ?thesis by (simp add: sim.simps(2))
            next
              case (Some cr)
              from Suc.prems False p exec f opened Some
              have "(case cr of Inl e \<Rightarrow> Some (Inl e)
                     | Inr ((exec_exec, exec_status, final_time), g2) \<Rightarrow>
                         finish (fr1\<lparr>execution := execution fr1 @ exec_exec,
                                      system_status := system_status fr1 @ exec_status,
                                      current_time := final_time\<rparr>) g2) = Some r"
                by (simp add: sim.simps(2))
              with ih [OF Some] False p exec f opened show ?thesis
                by (subst sim.simps(2)) simp
            qed
          qed
        qed
      next
        case other
        with Suc.prems False p have "sim n cfg tr (Suc i) fr g = Some r"
          by (auto simp: sim.simps(2) handled_def)
        from ih [OF this] other False p show ?thesis
          by (subst sim.simps(2)) (auto simp: handled_def)
      qed
    qed
  qed
qed

lemma sim_fuel_mono:
  "sim n cfg tr i fr g = Some r \<Longrightarrow> sim (n + k) cfg tr i fr g = Some r"
  by (induction k) (simp_all add: sim_fuel_Suc)

subsection \<open>The cases of a run that returns\<close>

lemma sim_SucE [consumes 1, case_names Done Cpu Syscall EndIo Fork ExecNoFile ExecFile Other]:
  assumes "sim (Suc n) cfg tr i fr g = Some (Inr ((ex, st, t), g'))"
  obtains
    (Done) "length tr \<le> i" "ex = execution fr" "st = system_status fr" "t = current_time fr"
      "g' = g"
  | (Cpu) d pn where "i < length tr" "parse cfg (tr ! i) = Inr (''CPU'', d, pn)"
      "sim n cfg tr (Suc i) (cpu_step d fr) g = Some (Inr ((ex, st, t), g'))"
  | (Syscall) d pn fr1 where "i < length tr" "parse cfg (tr ! i) = Inr (''SYSCALL'', d, pn)"
      "syscall_step cfg d fr = Inr fr1"
      "sim n cfg tr (Suc i) fr1 g = Some (Inr ((ex, st, t), g'))"
  | (EndIo) d pn fr1 where "i < length tr" "parse cfg (tr ! i) = Inr (''END_IO'', d, pn)"
      "end_io_step cfg d fr = Inr fr1"
      "sim n cfg tr (Suc i) fr1 g = Some (Inr ((ex, st, t), g'))"
  | (Fork) d pn fr1 child g1 ct pidx cex cst nt g2 where "i < length tr"
      "parse cfg (tr ! i) = Inr (''FORK'', d, pn)"
      "fork_step cfg d fr g = Inr (fr1, child, g1)"
      "child_scan (parse cfg) (drop (Suc i) tr) (Suc i) True False 0 [] = Inr (ct, pidx)"
      "sim n cfg ct 0 (new_frame (current_time fr1) child []) g1 = Some (Inr ((cex, cst, nt), g2))"
      "sim n cfg tr (Suc pidx)
         (fr1\<lparr>execution := execution fr1 @ cex, system_status := system_status fr1 @ cst,
              current_time := nt\<rparr>)
         (g2\<lparr>memory := snd (free_memory child (memory g2))\<rparr>) = Some (Inr ((ex, st, t), g'))"
  | (ExecNoFile) d pn fr1 g1 where "i < length tr" "parse cfg (tr ! i) = Inr (''EXEC'', d, pn)"
      "exec_step cfg d pn fr g = Inr (fr1, g1)" "map_of (trace_files cfg) (pn @ ''.txt'') = None"
      "ex = execution fr1" "st = system_status fr1" "t = current_time fr1"
      "g' = g1\<lparr>cerr := cerr g1 @ [''ERROR! Could not open '' @ pn @ ''.txt'']\<rparr>"
  | (ExecFile) d pn fr1 g1 lines cex cst where "i < length tr"
      "parse cfg (tr ! i) = Inr (''EXEC'', d, pn)"
      "exec_step cfg d pn fr g = Inr (fr1, g1)"
      "map_of (trace_files cfg) (pn @ ''.txt'') = Some lines"
      "sim n cfg lines 0 (new_frame (current_time fr1) (current fr1) (wait_queue fr1)) g1
         = Some (Inr ((cex, cst, t), g'))"
      "ex = execution fr1 @ cex" "st = system_status fr1 @ cst"
  | (Other) a d pn where "i < length tr" "parse cfg (tr ! i) = Inr (a, d, pn)"
      "a \<notin> set handled" "sim n cfg tr (Suc i) fr g = Some (Inr ((ex, st, t), g'))"
proof (cases "length tr \<le> i")
  case True
  with assms show ?thesis by (intro Done) (simp_all add: sim.simps(2) finish_def)
next
  case False
  then have i: "i < length tr" by simp
  from assms False obtain a d pn where p: "parse cfg (tr ! i) = Inr (a, d, pn)"
    by (auto simp: sim.simps(2) split: sum.splits)
  consider (cpu) "a = ''CPU''" | (sys) "a = ''SYSCALL''" | (eio) "a = ''END_IO''"
    | (fork) "a = ''FORK''" | (exec) "a = ''EXEC''" | (other) "a \<notin> set handled"
    by (auto simp: handled_def)
  then show ?thesis
  proof cases
    case cpu
    with assms False p i show ?thesis by (intro Cpu [of d pn]) (simp_all add: sim.simps(2))
  next
    case sys
    with assms False p obtain fr1 where
      "syscall_step cfg d fr = Inr fr1" "sim n cfg tr (Suc i) fr1 g = Some (Inr ((ex, st, t), g'))"
      by (auto simp: sim.simps(2) split: sum.splits)
    with i p sys show ?thesis by (intro Syscall [of d pn fr1]) simp_all
  next
    case eio
    with assms False p obtain fr1 where
      "end_io_step cfg d fr = Inr fr1" "sim n cfg tr (Suc i) fr1 g = Some (Inr ((ex, st, t), g'))"
      by (auto simp: sim.simps(2) split: sum.splits)
    with i p eio show ?thesis by (intro EndIo [of d pn fr1]) simp_all
  next
    case fork
    with assms False p obtain fr1 child g1 ct pidx cex cst nt g2 where
      "fork_step cfg d fr g = Inr (fr1, child, g1)"
      "child_scan (parse cfg) (drop (Suc i) tr) (Suc i) True False 0 [] = Inr (ct, pidx)"
      "sim n cfg ct 0 (new_frame (current_time fr1) child []) g1 = Some (Inr ((cex, cst, nt), g2))"
      "sim n cfg tr (Suc pidx)
         (fr1\<lparr>execution := execution fr1 @ cex, system_status := system_status fr1 @ cst,
              current_time := nt\<rparr>)
         (g2\<lparr>memory := snd (free_memory child (memory g2))\<rparr>) = Some (Inr ((ex, st, t), g'))"
      by (auto simp: sim.simps(2) split: sum.splits option.splits prod.splits)
    with i p fork show ?thesis by (intro Fork [of d pn fr1 child g1 ct pidx cex cst nt g2]) simp_all
  next
    case exec
    with assms False p obtain fr1 g1 where s: "exec_step cfg d pn fr g = Inr (fr1, g1)"
      by (auto simp: sim.simps(2) split: sum.splits)
    show ?thesis
    proof (cases "map_of (trace_files cfg) (pn @ ''.txt'')")
      case None
      with assms False p exec s i show ?thesis
        by (intro ExecNoFile [of d pn fr1 g1]) (simp_all add: sim.simps(2) finish_def)
    next
      case (Some lines)
      with assms False p exec s obtain cex cst where
        "sim n cfg lines 0 (new_frame (current_time fr1) (current fr1) (wait_queue fr1)) g1
           = Some (Inr ((cex, cst, t), g'))"
        "ex = execution fr1 @ cex" "st = system_status fr1 @ cst"
        by (auto simp: sim.simps(2) finish_def split: sum.splits option.splits)
      with i p exec s Some show ?thesis by (intro ExecFile [of d pn fr1 g1 lines cex cst]) simp_all
    qed
  next
    case other
    with assms False p i show ?thesis
      by (intro Other [of a d pn]) (auto simp: sim.simps(2) handled_def)
  qed
qed

subsection \<open>What the steps do to the status log and the pid counter\<close>

lemma status_cpu: "system_status (cpu_step d fr) = system_status fr"
  by (simp add: cpu_step_def emit_def advance_def)

lemma frame_run_intr:
  "run_intr cfg dev fr = Inr fr1 \<Longrightarrow>
   system_status fr1 = system_status fr \<and> current fr1 = current fr \<and> wait_queue fr1 = wait_queue fr"
  by (auto simp: run_intr_def split: sum.splits)

lemma status_run_intr: "run_intr cfg dev fr = Inr fr1 \<Longrightarrow> system_status fr1 = system_status fr"
  by (auto simp: run_intr_def split: sum.splits)

lemma status_syscall: "syscall_step cfg d fr = Inr fr1 \<Longrightarrow> system_status fr1 = system_status fr"
  by (auto simp: syscall_step_def emit_def advance_def split: sum.splits dest: status_run_intr)

lemma status_end_io: "end_io_step cfg d fr = Inr fr1 \<Longrightarrow> system_status fr1 = system_status fr"
  by (auto simp: end_io_step_def emit_def advance_def split: sum.splits dest: status_run_intr)

lemma fork_step_result:
  assumes "fork_step cfg d fr g = Inr (fr1, child, g1)"
  shows "\<exists>t. system_status fr1 = system_status fr @ [ForkStatus t d child (wait_queue fr @ [current fr])]"
    and "PID child = next_pid g" and "PPID child = PID (current fr)"
    and "partition_number child = partition_number (current fr)"
    and "next_pid g1 = next_pid g + 1"
  using assms
  by (auto simp: fork_step_def Let_def emit_def advance_def split: sum.splits dest!: frame_run_intr)

lemma exec_step_result:
  assumes "exec_step cfg d pn fr g = Inr (fr1, g1)"
  shows "\<exists>t pcb. system_status fr1 = system_status fr @ [ExecStatus t pn d pcb (wait_queue fr)]"
    and "next_pid g1 = next_pid g"
  using assms
  by (auto simp: exec_step_def Let_def emit_def advance_def rand_delay_def
           split: sum.splits prod.splits dest!: frame_run_intr)


subsection \<open>The clock\<close>









lemma timed_status [simp]: "timed t0 (fr\<lparr>system_status := s\<rparr>) = timed t0 fr"
  and timed_queue [simp]: "timed t0 (fr\<lparr>wait_queue := w\<rparr>) = timed t0 fr"
  and timed_current [simp]: "timed t0 (fr\<lparr>current := c\<rparr>) = timed t0 fr"
  by (simp_all add: timed_def)







subsection \<open>FORK blocks, pids\<close>

lemma sim_shares:
  "sim n cfg tr i fr g = Some (Inr ((ex, st, t), g')) \<Longrightarrow> list_all shares (system_status fr) \<Longrightarrow>
   list_all shares st"
proof (induction n arbitrary: tr i fr g ex st t g')
  case 0
  then show ?case by simp
next
  case (Suc n)
  from Suc.prems(1) show ?case
  proof (cases rule: sim_SucE)
    case Done
    with Suc.prems show ?thesis by simp
  next
    case (Cpu d pn)
    from Suc.IH [OF Cpu(3)] Suc.prems(2) show ?thesis by (simp add: status_cpu)
  next
    case (Syscall d pn fr1)
    from Suc.IH [OF Syscall(4)] Suc.prems(2) status_syscall [OF Syscall(3)] show ?thesis by simp
  next
    case (EndIo d pn fr1)
    from Suc.IH [OF EndIo(4)] Suc.prems(2) status_end_io [OF EndIo(3)] show ?thesis by simp
  next
    case (Fork d pn fr1 child g1 ct pidx cex cst nt g2)
    from fork_step_result [OF Fork(3)] Suc.prems(2)
    have a: "list_all shares (system_status fr1)" by auto
    have b: "list_all shares cst" by (rule Suc.IH [OF Fork(5)]) (simp add: new_frame_def)
    from Suc.IH [OF Fork(6)] a b show ?thesis by simp
  next
    case (ExecNoFile d pn fr1 g1)
    from exec_step_result [OF ExecNoFile(3)] Suc.prems(2) ExecNoFile(6) show ?thesis by auto
  next
    case (ExecFile d pn fr1 g1 lines cex cst)
    from exec_step_result [OF ExecFile(3)] Suc.prems(2)
    have a: "list_all shares (system_status fr1)" by auto
    have b: "list_all shares cst" by (rule Suc.IH [OF ExecFile(5)]) (simp add: new_frame_def)
    from a b ExecFile(7) show ?thesis by simp
  next
    case (Other a d pn)
    from Suc.IH [OF Other(4)] Suc.prems(2) show ?thesis .
  qed
qed





subsection \<open>The scan of FORK, and lines the loop passes\<close>

lemma scan_collects:
  "list_all (collected prs) ls \<Longrightarrow>
   child_scan prs (ls @ rest) j False exec_flag parent_index child_trace =
   child_scan prs rest (j + length ls) False exec_flag parent_index (child_trace @ ls)"
proof (induction ls arbitrary: j child_trace)
  case Nil
  then show ?case by simp
next
  case (Cons l ls)
  from Cons.prems obtain a d p
    where l: "prs l = Inr (a, d, p)" "a \<noteq> ''IF_PARENT''" "a \<noteq> ''EXEC''"
    by (auto simp: collected_def split: sum.splits)
  from Cons.prems have "list_all (collected prs) ls" by simp
  from Cons.IH [OF this, of "Suc j" "child_trace @ [l]"] l show ?case by simp
qed

lemma scan_no_if_parent:
  "list_all (not_if_parent prs) ls \<Longrightarrow>
   \<exists>ct. child_scan prs ls j skip exec_flag parent_index child_trace = Inr (ct, parent_index)"
proof (induction ls arbitrary: j skip exec_flag child_trace)
  case Nil
  then show ?case by simp
next
  case (Cons l ls)
  from Cons.prems obtain a d p where l: "prs l = Inr (a, d, p)" "a \<noteq> ''IF_PARENT''"
    by (auto simp: not_if_parent_def split: sum.splits)
  from Cons.prems have "list_all (not_if_parent prs) ls" by simp
  note ih = Cons.IH [OF this]
  from l show ?case by (simp add: ih)
qed

lemma isr_steps_succeed:
  assumes "0 \<le> d" and "nat d < length (vectors cfg)" and "nat d < length (delays cfg)"
  shows "\<exists>fr1. syscall_step cfg d fr = Inr fr1" and "\<exists>fr1. end_io_step cfg d fr = Inr fr1"
  using assms
  by (auto simp: syscall_step_def end_io_step_def run_intr_def intr_boilerplate_def read_delay_def)

lemma passed_step:
  assumes "i < length tr" and "passed cfg (tr ! i)"
  shows "\<exists>fr1. sim (Suc n) cfg tr i fr g = sim n cfg tr (Suc i) fr1 g"
proof -
  from assms(2) obtain a d p where l: "parse cfg (tr ! i) = Inr (a, d, p)"
    "a \<noteq> ''FORK''" "a \<noteq> ''EXEC''"
    and isr: "a = ''SYSCALL'' \<or> a = ''END_IO'' \<Longrightarrow>
                0 \<le> d \<and> nat d < length (vectors cfg) \<and> nat d < length (delays cfg)"
    by (auto simp: passed_def split: sum.splits if_splits)
  consider (cpu) "a = ''CPU''" | (sys) "a = ''SYSCALL''" | (eio) "a = ''END_IO''"
    | (other) "a \<notin> set handled"
    using l by (auto simp: handled_def)
  then show ?thesis
  proof cases
    case cpu
    with assms(1) l have "sim (Suc n) cfg tr i fr g = sim n cfg tr (Suc i) (cpu_step d fr) g"
      by (simp add: sim.simps(2))
    then show ?thesis ..
  next
    case sys
    with isr isr_steps_succeed(1) [of d cfg fr] obtain fr1
      where "syscall_step cfg d fr = Inr fr1" by blast
    with assms(1) l sys have "sim (Suc n) cfg tr i fr g = sim n cfg tr (Suc i) fr1 g"
      by (simp add: sim.simps(2))
    then show ?thesis ..
  next
    case eio
    with isr isr_steps_succeed(2) [of d cfg fr] obtain fr1
      where "end_io_step cfg d fr = Inr fr1" by blast
    with assms(1) l eio have "sim (Suc n) cfg tr i fr g = sim n cfg tr (Suc i) fr1 g"
      by (simp add: sim.simps(2))
    then show ?thesis ..
  next
    case other
    with assms(1) l have "sim (Suc n) cfg tr i fr g = sim n cfg tr (Suc i) fr g"
      by (auto simp: sim.simps(2) handled_def)
    then show ?thesis ..
  qed
qed

lemma passed_never_fails:
  "list_all (passed cfg) tr \<Longrightarrow> sim n cfg tr i fr g \<noteq> Some (Inl e)"
proof (induction n arbitrary: i fr)
  case 0
  then show ?case by simp
next
  case (Suc n)
  show ?case
  proof (cases "i < length tr")
    case True
    with Suc.prems have "passed cfg (tr ! i)" by (simp add: list_all_length)
    from passed_step [OF True this] obtain fr1
      where "sim (Suc n) cfg tr i fr g = sim n cfg tr (Suc i) fr1 g" by blast
    with Suc.IH [OF Suc.prems] show ?thesis by simp
  next
    case False
    then show ?thesis by (simp add: sim.simps(2) finish_def)
  qed
qed

lemma fork_step_succeeds:
  "2 < length (vectors cfg) \<Longrightarrow> \<exists>fr1 child g1. fork_step cfg d fr g = Inr (fr1, child, g1)"
  by (simp add: fork_step_def run_intr_def intr_boilerplate_def Let_def)

lemma fork_loops:
  assumes k: "0 < k" "k < length tr"
    and fork: "parse cfg (tr ! k) = Inr (''FORK'', d, pn)"
    and vecs: "2 < length (vectors cfg)"
    and before: "list_all (passed cfg) (take k tr)"
    and scan: "child_scan (parse cfg) (drop (Suc k) tr) (Suc k) True False 0 [] = Inr (ct, 0)"
    and child: "\<forall>m fr1 g1 e. sim m cfg ct 0 fr1 g1 \<noteq> Some (Inl e)"
  shows "j \<le> k \<Longrightarrow> sim n cfg tr j fr g = None"
proof (induction n arbitrary: j fr g)
  case 0
  then show ?case by simp
next
  case (Suc n)
  show ?case
  proof (cases "j < k")
    case True
    with k have j: "j < length tr" by simp
    from before True k have "passed cfg (tr ! j)"
      by (simp add: list_all_length)
    from passed_step [OF j this] obtain fr1
      where "sim (Suc n) cfg tr j fr g = sim n cfg tr (Suc j) fr1 g" by blast
    with Suc.IH [of "Suc j"] True show ?thesis by simp
  next
    case False
    with Suc.prems have jk: "j = k" by simp
    from fork_step_succeeds [OF vecs] obtain fr1 child g1
      where f: "fork_step cfg d fr g = Inr (fr1, child, g1)" by blast
    have resume: "\<And>fr2 g2. sim n cfg tr (Suc 0) fr2 g2 = None"
      using k(1) by (intro Suc.IH) simp
    show ?thesis
    proof (cases "sim n cfg ct 0 (new_frame (current_time fr1) child []) g1")
      case None
      with jk k fork f scan show ?thesis by (simp add: sim.simps(2))
    next
      case (Some r)
      with child obtain res where "r = Inr res" by (cases r) auto
      with Some jk k fork f scan resume show ?thesis
        by (simp add: sim.simps(2) split: prod.splits)
    qed
  qed
qed

section \<open>Scenario A\<close>

text \<open>
  Claim C1. The trace \<^verbatim>\<open>["CPU,5", "SYSCALL,0"]\<close> with the vector table \<^verbatim>\<open>["0x10"]\<close>, the ISR
  delay table \<^verbatim>\<open>[20]\<close> and the start clock 0 gives exactly the six entries of the scenario,
  an empty status log and the final clock 38, whatever the PCB, the wait queue and the
  shared state are, and with any fuel from 3 on. The context-save cost 10 is the constant of
  the call in \<^verbatim>\<open>simulate_trace\<close>.
\<close>

theorem scenario_A:
  "simulate_trace (Suc (Suc (Suc n))) (machine [''0x10''] [20] registry files)
     [''CPU,5'', ''SYSCALL,0''] 0 pcb wq g =
   Some (Inr (([(0, 5, ''CPU Burst''), (5, 1, ''switch to kernel mode''),
                (6, 10, ''context saved''), (16, 1, ''find vector 0 in memory position 0x10''),
                (17, 20, ''SYSCALL ISR''), (37, 1, ''IRET'')], [], 38), g))"
  by (simp add: run_eval parse_eval)

theorem scenario_A_witness:
  "simulate_trace 3 (machine [''0x10''] [20] [] []) [''CPU,5'', ''SYSCALL,0''] 0 (init_pcb 0) []
     (boot [(2, True)]) =
   Some (Inr (([(0, 5, ''CPU Burst''), (5, 1, ''switch to kernel mode''),
                (6, 10, ''context saved''), (16, 1, ''find vector 0 in memory position 0x10''),
                (17, 20, ''SYSCALL ISR''), (37, 1, ''IRET'')], [], 38), boot [(2, True)]))"
  using scenario_A [of 0 "[]" "[]" "init_pcb 0" "[]" "boot [(2, True)]"]
  by (simp add: eval_nat_numeral)

section \<open>EXEC ends the loop\<close>

text \<open>
  Claim C2. When the line at an index is an EXEC, the lines after it in the same trace are
  never interpreted: the loop started at that index returns the same with the rest of the
  trace cut off, and what it returns is the log of the EXEC itself followed by what the
  interpretation of the new program's trace returns (or the log of the EXEC alone when the
  program's trace file cannot be opened).
\<close>

theorem exec_is_terminal:
  assumes "parse cfg l = Inr (''EXEC'', d, pn)"
  shows "sim n cfg (pre @ l # rest) (length pre) fr g = sim n cfg (pre @ [l]) (length pre) fr g
       \<and> sim (Suc n) cfg (pre @ l # rest) (length pre) fr g =
         (case exec_step cfg d pn fr g of
            Inl e \<Rightarrow> Some (Inl e)
          | Inr (fr1, g1) \<Rightarrow>
              (case map_of (trace_files cfg) (pn @ ''.txt'') of
                 None \<Rightarrow>
                   Some (Inr ((execution fr1, system_status fr1, current_time fr1),
                              g1\<lparr>cerr := cerr g1 @ [''ERROR! Could not open '' @ pn @ ''.txt'']\<rparr>))
               | Some exec_traces \<Rightarrow>
                   (case simulate_trace n cfg exec_traces (current_time fr1) (current fr1)
                           (wait_queue fr1) g1 of
                      None \<Rightarrow> None
                    | Some (Inl e) \<Rightarrow> Some (Inl e)
                    | Some (Inr ((ex, st, t), g2)) \<Rightarrow>
                        Some (Inr ((execution fr1 @ ex, system_status fr1 @ st, t), g2)))))"
proof -
  have cut: "sim n cfg (pre @ l # rest) (length pre) fr g = sim n cfg (pre @ [l]) (length pre) fr g"
    using assms by (cases n) (simp_all add: sim.simps(2))
  have unfolded: "sim (Suc n) cfg (pre @ l # rest) (length pre) fr g =
         (case exec_step cfg d pn fr g of
            Inl e \<Rightarrow> Some (Inl e)
          | Inr (fr1, g1) \<Rightarrow>
              (case map_of (trace_files cfg) (pn @ ''.txt'') of
                 None \<Rightarrow>
                   Some (Inr ((execution fr1, system_status fr1, current_time fr1),
                              g1\<lparr>cerr := cerr g1 @ [''ERROR! Could not open '' @ pn @ ''.txt'']\<rparr>))
               | Some exec_traces \<Rightarrow>
                   (case simulate_trace n cfg exec_traces (current_time fr1) (current fr1)
                           (wait_queue fr1) g1 of
                      None \<Rightarrow> None
                    | Some (Inl e) \<Rightarrow> Some (Inl e)
                    | Some (Inr ((ex, st, t), g2)) \<Rightarrow>
                        Some (Inr ((execution fr1 @ ex, system_status fr1 @ st, t), g2)))))"
    using assms
    by (simp add: sim.simps(2) simulate_trace_def finish_def
             split: sum.splits option.splits prod.splits)
  from cut unfolded show ?thesis by blast
qed

theorem exec_is_terminal_witness:
  "parse (machine [''0x10'', ''0x20'', ''0x30'', ''0x40''] [] [(''prog'', 10)]
            [(''prog.txt'', [''CPU,3''])]) ''EXEC,prog'' = Inr (''EXEC'', 0, ''prog'')
   \<and> sim 4 (machine [''0x10'', ''0x20'', ''0x30'', ''0x40''] [] [(''prog'', 10)]
              [(''prog.txt'', [''CPU,3''])])
        ([''CPU,1''] @ ''EXEC,prog'' # [''CPU,7'', ''SYSCALL,9'']) (length [''CPU,1''])
        (new_frame 7 (init_pcb 1) []) (boot [(40, False), (2, True)])
     = sim 4 (machine [''0x10'', ''0x20'', ''0x30'', ''0x40''] [] [(''prog'', 10)]
                [(''prog.txt'', [''CPU,3''])])
         ([''CPU,1''] @ [''EXEC,prog'']) (length [''CPU,1''])
         (new_frame 7 (init_pcb 1) []) (boot [(40, False), (2, True)])
   \<and> sim 4 (machine [''0x10'', ''0x20'', ''0x30'', ''0x40''] [] [(''prog'', 10)]
              [(''prog.txt'', [''CPU,3''])])
        [''CPU,1'', ''EXEC,prog''] 1 (new_frame 7 (init_pcb 1) []) (boot [(40, False), (2, True)])
     = Some (Inr (([(7, 1, ''switch to kernel mode''), (8, 10, ''context saved''),
                    (18, 1, ''find vector 3 in memory position 0x40''),
                    (19, 0, ''Program is 10 Mb large''),
                    (19, 150, ''loading program into memory''),
                    (169, 1, ''marking partition as occupied''), (170, 1, ''updating PCB''),
                    (171, 0, ''scheduler called''), (171, 1, ''IRET''), (172, 3, ''CPU Burst'')],
                   [ExecStatus 172 ''prog'' 0
                      \<lparr>PID = 0, PPID = - 1, program_name = ''prog'', size_pcb = 10,
                         partition_number = 0\<rparr> []],
                   175),
                  \<lparr>next_pid = 1, memory = [(40, True), (2, False)], rand_calls = 2, cerr = []\<rparr>))"
proof -
  have h: "parse (machine [''0x10'', ''0x20'', ''0x30'', ''0x40''] [] [(''prog'', 10)]
                    [(''prog.txt'', [''CPU,3''])]) ''EXEC,prog'' = Inr (''EXEC'', 0, ''prog'')"
    by (simp add: machine_def parse_eval)
  have v: "sim 4 (machine [''0x10'', ''0x20'', ''0x30'', ''0x40''] [] [(''prog'', 10)]
              [(''prog.txt'', [''CPU,3''])])
        [''CPU,1'', ''EXEC,prog''] 1 (new_frame 7 (init_pcb 1) []) (boot [(40, False), (2, True)])
     = Some (Inr (([(7, 1, ''switch to kernel mode''), (8, 10, ''context saved''),
                    (18, 1, ''find vector 3 in memory position 0x40''),
                    (19, 0, ''Program is 10 Mb large''),
                    (19, 150, ''loading program into memory''),
                    (169, 1, ''marking partition as occupied''), (170, 1, ''updating PCB''),
                    (171, 0, ''scheduler called''), (171, 1, ''IRET''), (172, 3, ''CPU Burst'')],
                   [ExecStatus 172 ''prog'' 0
                      \<lparr>PID = 0, PPID = - 1, program_name = ''prog'', size_pcb = 10,
                         partition_number = 0\<rparr> []],
                   175),
                  \<lparr>next_pid = 1, memory = [(40, True), (2, False)], rand_calls = 2, cerr = []\<rparr>))"
    by code_simp
  from exec_is_terminal [OF h, of 4 "[''CPU,1'']" "[''CPU,7'', ''SYSCALL,9'']"
         "new_frame 7 (init_pcb 1) []" "boot [(40, False), (2, True)]"]
  have "sim 4 (machine [''0x10'', ''0x20'', ''0x30'', ''0x40''] [] [(''prog'', 10)]
              [(''prog.txt'', [''CPU,3''])])
        ([''CPU,1''] @ ''EXEC,prog'' # [''CPU,7'', ''SYSCALL,9'']) (length [''CPU,1''])
        (new_frame 7 (init_pcb 1) []) (boot [(40, False), (2, True)])
     = sim 4 (machine [''0x10'', ''0x20'', ''0x30'', ''0x40''] [] [(''prog'', 10)]
                [(''prog.txt'', [''CPU,3''])])
         ([''CPU,1''] @ [''EXEC,prog'']) (length [''CPU,1''])
         (new_frame 7 (init_pcb 1) []) (boot [(40, False), (2, True)])"
    by blast
  with h v show ?thesis by blast
qed

section \<open>Lines with an unrecognised tag\<close>




section \<open>EXEC when the allocation fails\<close>

text \<open>
  Claim C4 at a failing input: the program \<^verbatim>\<open>big\<close> of size 50 fits no partition (the free
  one holds 40). The failed allocation is written to \<^verbatim>\<open>std::cerr\<close> and the EXEC goes on: it
  logs the marking of a partition and the PCB update, appends the status block (the PCB
  with the partition number \<open>-1\<close>), loads \<^verbatim>\<open>big.txt\<close> and interprets it (the CPU burst at 765).
\<close>

theorem exec_allocation_failure_goes_on:
  "simulate_trace 5
     (machine [''0x10'', ''0x20'', ''0x30'', ''0x40''] [] [(''big'', 50)] [(''big.txt'', [''CPU,1''])])
     [''EXEC,big''] 0 (init_pcb 1) [] (boot [(40, False), (2, True)]) =
   Some (Inr (([(0, 1, ''switch to kernel mode''), (1, 10, ''context saved''),
                (11, 1, ''find vector 3 in memory position 0x40''),
                (12, 0, ''Program is 50 Mb large''), (12, 750, ''loading program into memory''),
                (762, 1, ''marking partition as occupied''), (763, 1, ''updating PCB''),
                (764, 0, ''scheduler called''), (764, 1, ''IRET''), (765, 1, ''CPU Burst'')],
               [ExecStatus 765 ''big'' 0
                  \<lparr>PID = 0, PPID = - 1, program_name = ''big'', size_pcb = 50,
                     partition_number = - 1\<rparr> []],
               766),
              \<lparr>next_pid = 1, memory = [(40, False), (2, False)], rand_calls = 2,
                 cerr = [''ERROR! Memory allocation failed for big'']\<rparr>))"
  by code_simp

section \<open>ENDIF in the scan of FORK\<close>

text \<open>
  Claim C5, as amended. An \<^verbatim>\<open>ENDIF\<close> met in skip mode is not added to the child's trace, but
  it ends skip mode: the lines after it are added to the child's trace again, each of them
  up to the next \<^verbatim>\<open>IF_PARENT\<close> or \<^verbatim>\<open>EXEC\<close>; the parent index and the EXEC flag are unchanged.
\<close>

theorem endif_in_skip_mode:
  assumes "prs l = Inr (''ENDIF'', d, pn)" and "list_all (collected prs) ls"
  shows "child_scan prs (l # ls @ rest) j True exec_flag parent_index child_trace =
         child_scan prs rest (Suc j + length ls) False exec_flag parent_index (child_trace @ ls)"
  using assms scan_collects [of prs ls rest "Suc j" exec_flag parent_index child_trace]
  by simp

theorem endif_in_skip_mode_witness:
  "parse_trace ''ENDIF,0'' = Inr (''ENDIF'', 0, [])
   \<and> list_all (collected parse_trace) [''CPU,4'', ''SYSCALL,1'']
   \<and> child_scan parse_trace (''ENDIF,0'' # [''CPU,4'', ''SYSCALL,1''] @ []) 5 True False 3 [''CPU,2'']
       = Inr ([''CPU,2'', ''CPU,4'', ''SYSCALL,1''], 3)"
proof -
  have h1: "parse_trace ''ENDIF,0'' = Inr (''ENDIF'', 0, [])" by (simp add: parse_eval)
  have h2: "list_all (collected parse_trace) [''CPU,4'', ''SYSCALL,1'']"
    by (simp add: collected_def parse_eval)
  show ?thesis
    using h1 h2 endif_in_skip_mode [OF h1 h2, of "[]" 5 False 3 "[''CPU,2'']"] by simp
qed

text \<open>
  The claim as stated fails: in the scan after a FORK at index 0, the \<^verbatim>\<open>ENDIF\<close> at index 5
  is met in skip mode (the \<^verbatim>\<open>IF_PARENT\<close> at index 3 set it), and the line \<^verbatim>\<open>CPU,4\<close> after
  it is added to the child's trace.
\<close>

theorem endif_in_skip_mode_counterexample:
  "child_scan parse_trace
     [''IF_CHILD,0'', ''CPU,2'', ''IF_PARENT,0'', ''CPU,3'', ''ENDIF,0'', ''CPU,4''] 1 True False 0 []
   = Inr ([''CPU,2'', ''CPU,4''], 3)"
  by (simp add: parse_eval)

section \<open>Partitions after a FORK\<close>

text \<open>
  Claim C6, as amended. A FORK allocates no partition for the child: every FORK block of
  the status log of a run that returns shows a child whose parent is the last PCB of the
  wait queue shown with it, and the child has the partition number of that parent. So a
  child and its parent hold the same partition from the FORK on.
\<close>

theorem fork_shares_partition:
  assumes "simulate_trace n cfg trace_file t0 pcb wq g = Some (Inr ((ex, st, t), g'))"
  shows "list_all shares st"
  using assms unfolding simulate_trace_def
  by (rule sim_shares) (simp add: new_frame_def)

theorem fork_shares_partition_witness:
  "simulate_trace 2 (machine [''0x10'', ''0x20'', ''0x30''] [] [] []) [''FORK,3''] 0 (init_pcb 1) []
     (boot [(40, False), (2, True)]) =
   Some (Inr (([(0, 1, ''switch to kernel mode''), (1, 10, ''context saved''),
                (11, 1, ''find vector 2 in memory position 0x30''), (12, 3, ''cloning the PCB''),
                (15, 0, ''scheduler called''), (15, 1, ''IRET'')],
               [ForkStatus 16 3
                  \<lparr>PID = 1, PPID = 0, program_name = ''init'', size_pcb = 1, partition_number = 1\<rparr>
                  [\<lparr>PID = 0, PPID = - 1, program_name = ''init'', size_pcb = 1,
                      partition_number = 1\<rparr>]],
               16),
              \<lparr>next_pid = 2, memory = [(40, False), (2, False)], rand_calls = 0, cerr = []\<rparr>))
   \<and> list_all shares
        [ForkStatus 16 3
           \<lparr>PID = 1, PPID = 0, program_name = ''init'', size_pcb = 1, partition_number = 1\<rparr>
           [\<lparr>PID = 0, PPID = - 1, program_name = ''init'', size_pcb = 1, partition_number = 1\<rparr>]]"
proof -
  have run: "simulate_trace 2 (machine [''0x10'', ''0x20'', ''0x30''] [] [] []) [''FORK,3''] 0
     (init_pcb 1) [] (boot [(40, False), (2, True)]) =
   Some (Inr (([(0, 1, ''switch to kernel mode''), (1, 10, ''context saved''),
                (11, 1, ''find vector 2 in memory position 0x30''), (12, 3, ''cloning the PCB''),
                (15, 0, ''scheduler called''), (15, 1, ''IRET'')],
               [ForkStatus 16 3
                  \<lparr>PID = 1, PPID = 0, program_name = ''init'', size_pcb = 1, partition_number = 1\<rparr>
                  [\<lparr>PID = 0, PPID = - 1, program_name = ''init'', size_pcb = 1,
                      partition_number = 1\<rparr>]],
               16),
              \<lparr>next_pid = 2, memory = [(40, False), (2, False)], rand_calls = 0, cerr = []\<rparr>))"
    by code_simp
  from fork_shares_partition [OF run] run show ?thesis by blast
qed

text \<open>
  The claim as stated fails: \<^verbatim>\<open>main\<close> on the one line \<^verbatim>\<open>FORK,3\<close>, with partitions of
  capacity 40 and 2. Init gets partition 1; the FORK block shows the child, pid 1, and in
  the wait queue its parent, pid 0, both with partition 1.
\<close>

theorem partition_exclusivity_counterexample:
  "main 2 (machine [''0x10'', ''0x20'', ''0x30''] [] [] []) [''FORK,3''] [(40, False), (2, False)] =
   Some (Some (Inr (([(0, 1, ''switch to kernel mode''), (1, 10, ''context saved''),
                (11, 1, ''find vector 2 in memory position 0x30''), (12, 3, ''cloning the PCB''),
                (15, 0, ''scheduler called''), (15, 1, ''IRET'')],
               [ForkStatus 16 3
                  \<lparr>PID = 1, PPID = 0, program_name = ''init'', size_pcb = 1, partition_number = 1\<rparr>
                  [\<lparr>PID = 0, PPID = - 1, program_name = ''init'', size_pcb = 1,
                      partition_number = 1\<rparr>]],
               16),
              \<lparr>next_pid = 2, memory = [(40, False), (2, False)], rand_calls = 0, cerr = []\<rparr>)))"
  by code_simp

section \<open>Pids\<close>



section \<open>The clock of the execution log\<close>




section \<open>The ISR delay table\<close>

text \<open>
  Claim C9 at a failing input: the vector table has two entries and the delay table one.
  For \<^verbatim>\<open>SYSCALL,1\<close>, and for \<^verbatim>\<open>END_IO,1\<close>, the prologue finds vector 1, and \<^verbatim>\<open>delays[1]\<close>
  is then read past the end of the table: no \<open>OutOfRangeVector\<close> is raised.
\<close>

theorem delay_read_past_end:
  "simulate_trace 5 (machine [''0x10'', ''0x20''] [20] [] []) [''SYSCALL,1''] 0 (init_pcb 0) []
     (boot [(2, True)]) = Some (Inl DelayReadOutOfBounds)
   \<and> simulate_trace 5 (machine [''0x10'', ''0x20''] [20] [] []) [''END_IO,1''] 0 (init_pcb 0) []
       (boot [(2, True)]) = Some (Inl DelayReadOutOfBounds)"
  by (simp add: run_eval parse_eval eval_nat_numeral)

section \<open>A FORK with no IF_PARENT after it\<close>

text \<open>
  Claim C10, as amended. Take a trace with a FORK at an index \<open>k\<close> that is not 0 and no
  \<^verbatim>\<open>IF_PARENT\<close> after it, on a machine whose vector table has vector 2. The scan leaves the
  parent index at 0, so the parent resumes at index 1. When the lines before the FORK are
  lines the loop passes (CPU bursts, lines no branch handles, SYSCALLs and END_IOs with an
  operand inside both tables), and the interpretation of the child's trace never fails,
  the loop reaches the FORK again each time and \<^verbatim>\<open>simulate_trace\<close> does not return: with
  any fuel the result is \<open>None\<close>.
\<close>

theorem fork_without_if_parent:
  assumes "0 < k" and "k < length trace_file"
    and "parse cfg (trace_file ! k) = Inr (''FORK'', d, pn)"
    and "2 < length (vectors cfg)"
    and "list_all (passed cfg) (take k trace_file)"
    and "list_all (not_if_parent (parse cfg)) (drop (Suc k) trace_file)"
    and "child_scan (parse cfg) (drop (Suc k) trace_file) (Suc k) True False 0 [] = Inr (ct, pidx)"
    and "\<forall>m fr1 g1 e. sim m cfg ct 0 fr1 g1 \<noteq> Some (Inl e)"
  shows "pidx = 0 \<and> simulate_trace n cfg trace_file t0 pcb wq g = None"
proof -
  from scan_no_if_parent [OF assms(6), of "Suc k" True False 0 "[]"] assms(7)
  have p: "pidx = 0" by auto
  from fork_loops [OF assms(1-5) assms(7) [unfolded p] assms(8), of 0 n] p
  show ?thesis by (simp add: simulate_trace_def)
qed

theorem fork_without_if_parent_witness:
  "(0::nat) < 2
   \<and> 2 < length [''CPU,1'', ''SYSCALL,0'', ''FORK,1'', ''IF_CHILD,0'', ''CPU,2'', ''ENDIF,0'']
   \<and> parse (machine [''0x10'', ''0x20'', ''0x30''] [5] [] [])
        ([''CPU,1'', ''SYSCALL,0'', ''FORK,1'', ''IF_CHILD,0'', ''CPU,2'', ''ENDIF,0''] ! 2)
       = Inr (''FORK'', 1, [])
   \<and> 2 < length (vectors (machine [''0x10'', ''0x20'', ''0x30''] [5] [] []))
   \<and> list_all (passed (machine [''0x10'', ''0x20'', ''0x30''] [5] [] []))
        (take 2 [''CPU,1'', ''SYSCALL,0'', ''FORK,1'', ''IF_CHILD,0'', ''CPU,2'', ''ENDIF,0''])
   \<and> list_all (not_if_parent (parse (machine [''0x10'', ''0x20'', ''0x30''] [5] [] [])))
        (drop (Suc 2) [''CPU,1'', ''SYSCALL,0'', ''FORK,1'', ''IF_CHILD,0'', ''CPU,2'', ''ENDIF,0''])
   \<and> child_scan (parse (machine [''0x10'', ''0x20'', ''0x30''] [5] [] []))
        (drop (Suc 2) [''CPU,1'', ''SYSCALL,0'', ''FORK,1'', ''IF_CHILD,0'', ''CPU,2'', ''ENDIF,0''])
        (Suc 2) True False 0 [] = Inr ([''CPU,2'', ''ENDIF,0''], 0)
   \<and> (\<forall>n. simulate_trace n (machine [''0x10'', ''0x20'', ''0x30''] [5] [] [])
          [''CPU,1'', ''SYSCALL,0'', ''FORK,1'', ''IF_CHILD,0'', ''CPU,2'', ''ENDIF,0''] 0
          (init_pcb 1) [] (boot [(40, False), (2, True)]) = None)"
proof -
  let ?M = "machine [''0x10'', ''0x20'', ''0x30''] [5] [] []"
  let ?tr = "[''CPU,1'', ''SYSCALL,0'', ''FORK,1'', ''IF_CHILD,0'', ''CPU,2'', ''ENDIF,0'']"
  have h1: "(0::nat) < 2" by simp
  have h2: "2 < length ?tr" by simp
  have h3: "parse ?M (?tr ! 2) = Inr (''FORK'', 1, [])" by (simp add: machine_def parse_eval)
  have h4: "2 < length (vectors ?M)" by (simp add: machine_def)
  have h5: "list_all (passed ?M) (take 2 ?tr)"
    by (simp add: machine_def passed_def parse_eval eval_nat_numeral)
  have h6: "list_all (not_if_parent (parse ?M)) (drop (Suc 2) ?tr)"
    by (simp add: machine_def not_if_parent_def parse_eval)
  have h7: "child_scan (parse ?M) (drop (Suc 2) ?tr) (Suc 2) True False 0 []
              = Inr ([''CPU,2'', ''ENDIF,0''], 0)"
    by (simp add: machine_def parse_eval)
  have "list_all (passed ?M) [''CPU,2'', ''ENDIF,0'']"
    by (simp add: machine_def passed_def parse_eval)
  then have h8: "\<forall>m fr1 g1 e. sim m ?M [''CPU,2'', ''ENDIF,0''] 0 fr1 g1 \<noteq> Some (Inl e)"
    by (blast dest: passed_never_fails)
  have "\<forall>n. simulate_trace n ?M ?tr 0 (init_pcb 1) [] (boot [(40, False), (2, True)]) = None"
    using fork_without_if_parent [OF h1 h2 h3 h4 h5 h6 h7 h8] by blast
  with h1 h2 h3 h4 h5 h6 h7 show ?thesis by blast
qed

text \<open>
  The claim as stated fails: the FORK at index 5 is not the first line and no \<^verbatim>\<open>IF_PARENT\<close>
  follows it, and the run returns, with the clock 360. The parent resumes at index 1 and
  meets the \<^verbatim>\<open>EXEC\<close> at index 2, which the first pass had jumped over (the FORK at index 0
  resumed at the \<^verbatim>\<open>IF_PARENT\<close> at index 3); the EXEC ends the loop.
\<close>

theorem fork_without_if_parent_counterexample:
  "final_clock
     (simulate_trace 7
        (machine [''0x10'', ''0x20'', ''0x30'', ''0x40''] [] [(''prog'', 10)]
           [(''prog.txt'', [''CPU,1''])])
        [''FORK,1'', ''IF_CHILD,0'', ''EXEC,prog'', ''IF_PARENT,0'', ''ENDIF,0'', ''FORK,1'']
        0 (init_pcb 1) [] (boot [(40, False), (2, True)])) = Some 360"
  by code_simp

end
